theory Spec2Isabelle
  imports Complex_Main "HOL-Library.Char_ord" "HOL-Library.List_Lexorder"
    "HOL-Library.Product_Lexorder"
begin

section \<open>NumPy scalars\<close>

text \<open>
  The values the program computes with are IEEE doubles (\<open>np.float64\<close>). They are
  modelled as the extended reals with a NaN: a finite value carries the real number it
  stands for. Arithmetic on them never raises (NumPy warns and returns an infinity or a
  NaN), and every comparison with a NaN is false. Rounding and overflow of finite
  results are outside this model, and a zero divisor is taken as \<open>+0.0\<close>.
\<close>

datatype npfloat = Fin real | PInf | NInf | NaN

definition isnan :: "npfloat \<Rightarrow> bool" where
  "isnan v = (v = NaN)"

fun fl_neg :: "npfloat \<Rightarrow> npfloat" where
  "fl_neg (Fin x) = Fin (- x)"
| "fl_neg PInf = NInf"
| "fl_neg NInf = PInf"
| "fl_neg NaN = NaN"

fun fl_add :: "npfloat \<Rightarrow> npfloat \<Rightarrow> npfloat" where
  "fl_add (Fin x) (Fin y) = Fin (x + y)"
| "fl_add (Fin x) PInf = PInf"
| "fl_add (Fin x) NInf = NInf"
| "fl_add PInf (Fin y) = PInf"
| "fl_add PInf PInf = PInf"
| "fl_add NInf (Fin y) = NInf"
| "fl_add NInf NInf = NInf"
| "fl_add PInf NInf = NaN"
| "fl_add NInf PInf = NaN"
| "fl_add NaN b = NaN"
| "fl_add a NaN = NaN"

definition fl_sub :: "npfloat \<Rightarrow> npfloat \<Rightarrow> npfloat" where
  "fl_sub a b = fl_add a (fl_neg b)"

text \<open>The sign of an infinity scaled by a finite factor; zero times infinity is NaN.\<close>

definition scale_inf :: "real \<Rightarrow> npfloat \<Rightarrow> npfloat" where
  "scale_inf x i = (if 0 < x then i else if x < 0 then fl_neg i else NaN)"

fun fl_mul :: "npfloat \<Rightarrow> npfloat \<Rightarrow> npfloat" where
  "fl_mul (Fin x) (Fin y) = Fin (x * y)"
| "fl_mul (Fin x) PInf = scale_inf x PInf"
| "fl_mul (Fin x) NInf = scale_inf x NInf"
| "fl_mul PInf (Fin y) = scale_inf y PInf"
| "fl_mul NInf (Fin y) = scale_inf y NInf"
| "fl_mul PInf PInf = PInf"
| "fl_mul NInf NInf = PInf"
| "fl_mul PInf NInf = NInf"
| "fl_mul NInf PInf = NInf"
| "fl_mul NaN b = NaN"
| "fl_mul a NaN = NaN"

fun fl_div :: "npfloat \<Rightarrow> npfloat \<Rightarrow> npfloat" where
  "fl_div (Fin x) (Fin y) = (if y \<noteq> 0 then Fin (x / y) else scale_inf x PInf)"
| "fl_div (Fin x) PInf = Fin 0"
| "fl_div (Fin x) NInf = Fin 0"
| "fl_div PInf (Fin y) = (if 0 \<le> y then PInf else NInf)"
| "fl_div NInf (Fin y) = (if 0 \<le> y then NInf else PInf)"
| "fl_div PInf PInf = NaN"
| "fl_div PInf NInf = NaN"
| "fl_div NInf PInf = NaN"
| "fl_div NInf NInf = NaN"
| "fl_div NaN b = NaN"
| "fl_div a NaN = NaN"

fun fl_exp :: "npfloat \<Rightarrow> npfloat" where
  "fl_exp (Fin x) = Fin (exp x)"
| "fl_exp PInf = PInf"
| "fl_exp NInf = Fin 0"
| "fl_exp NaN = NaN"

fun fl_log :: "npfloat \<Rightarrow> npfloat" where
  "fl_log (Fin x) = (if 0 < x then Fin (ln x) else if x = 0 then NInf else NaN)"
| "fl_log PInf = PInf"
| "fl_log NInf = NaN"
| "fl_log NaN = NaN"

fun fl_sqrt :: "npfloat \<Rightarrow> npfloat" where
  "fl_sqrt (Fin x) = (if 0 \<le> x then Fin (sqrt x) else NaN)"
| "fl_sqrt PInf = PInf"
| "fl_sqrt NInf = NaN"
| "fl_sqrt NaN = NaN"

fun fl_abs :: "npfloat \<Rightarrow> npfloat" where
  "fl_abs (Fin x) = Fin \<bar>x\<bar>"
| "fl_abs PInf = PInf"
| "fl_abs NInf = PInf"
| "fl_abs NaN = NaN"

fun fl_le :: "npfloat \<Rightarrow> npfloat \<Rightarrow> bool" where
  "fl_le (Fin x) (Fin y) = (x \<le> y)"
| "fl_le NaN b = False"
| "fl_le a NaN = False"
| "fl_le NInf b = True"
| "fl_le a PInf = True"
| "fl_le PInf b = False"
| "fl_le a NInf = False"

text \<open>\<open>==\<close> on doubles: a NaN equals nothing, itself included.\<close>

definition fl_eq :: "npfloat \<Rightarrow> npfloat \<Rightarrow> bool" where
  "fl_eq a b = (a \<noteq> NaN \<and> b \<noteq> NaN \<and> a = b)"

text \<open>Exceptions of the Python runtime and of the libraries the program calls.\<close>

datatype py_error =
  ZeroDivisionError | RuntimeError | ValueError | TypeError | OtherError string

section \<open>combined\_model.py\<close>

definition R :: real where
  "R = 8.314"

text \<open>
  \<open>gab_model(aw, W_m, C, K)\<close>: the parameters come from a table row (doubles), the
  water activity from \<open>get_aw_values\<close> (a Python float).
\<close>

definition gab_model :: "npfloat \<Rightarrow> npfloat \<Rightarrow> npfloat \<Rightarrow> npfloat \<Rightarrow> npfloat" where
  "gab_model aw W_m C K =
     fl_div (fl_mul (fl_mul (fl_mul W_m C) K) aw)
       (fl_mul (fl_sub (Fin 1) (fl_mul K aw))
               (fl_add (fl_sub (Fin 1) (fl_mul K aw)) (fl_mul (fl_mul C K) aw)))"

text \<open>
  \<open>predict_shelf_life_moisture\<close>. The scenario constants \<open>W_s\<close>, \<open>A\<close>, \<open>WVTR\<close> are
  Python numbers, so \<open>W_s / (A * WVTR)\<close> is Python's division and raises
  \<open>ZeroDivisionError\<close> on a zero divisor; the two isotherm values are computed
  before it.
\<close>

definition predict_shelf_life_moisture ::
  "npfloat \<Rightarrow> npfloat \<Rightarrow> npfloat \<Rightarrow> real \<Rightarrow> real \<Rightarrow> real \<Rightarrow> real \<Rightarrow> real \<Rightarrow> py_error + npfloat" where
  "predict_shelf_life_moisture W_m C K W_s A WVTR aw_c aw_0 =
     (let M_c = gab_model (Fin aw_c) W_m C K;
          M_0 = gab_model (Fin aw_0) W_m C K
      in if A * WVTR = 0 then Inl ZeroDivisionError
         else Inr (fl_mul (Fin (W_s / (A * WVTR))) (fl_sub M_c M_0)))"

text \<open>
  \<open>predict_shelf_life_oxidation\<close>. \<open>E_a\<close> and \<open>k_0\<close> are doubles of a table row, so
  every operation that involves them is NumPy's and does not raise; \<open>T_C\<close> is a
  Python number.
\<close>

definition predict_shelf_life_oxidation :: "npfloat \<Rightarrow> npfloat \<Rightarrow> real \<Rightarrow> npfloat" where
  "predict_shelf_life_oxidation E_a k_0 T_C =
     (if isnan E_a \<or> isnan k_0 then NaN
      else let T_K = T_C + 273.15;
               k_T = fl_mul k_0
                       (fl_exp (fl_div (fl_mul (fl_neg E_a) (Fin 1000)) (Fin (R * T_K))));
               IP_h = fl_div (Fin 1) k_T
           in fl_div IP_h (Fin 24.0))"

definition CATEGORY_MAP :: "(string \<times> string) list" where
  "CATEGORY_MAP =
     [(''C'', ''Crackers''), (''D'', ''Sweet biscuit''), (''F'', ''Cream filling''),
      (''O'', ''Snack (oil)''), (''P'', ''Baked snack''), (''S'', ''Sandwich biscuit''),
      (''W'', ''Sugar Wafers'')]"

definition get_aw_values :: "string \<Rightarrow> real \<times> real" where
  "get_aw_values category =
     (let aw_c = (if category \<in> set [''C'', ''D'', ''P'', ''S''] then 0.6 else 0.5);
          aw_0 = (if category \<in> set [''D'', ''S''] then 0.4 else 0.3)
      in (aw_c, aw_0))"

text \<open>The two parameter tables, as the rows of the data frames read from the CSV files.\<close>

record moisture_row =
  gab_category :: string
  gab_W_m :: npfloat
  gab_C :: npfloat
  gab_K :: npfloat

record oxidation_row =
  ox_category :: string
  ox_e_a :: npfloat
  ox_k_0 :: npfloat

text \<open>
  \<open>predict_shelf_life_combined\<close>. \<open>df[df["category"] == category].iloc[0]\<close> is the
  first row of the category, read only when the category occurs in the table.
\<close>

definition predict_shelf_life_combined ::
  "string \<Rightarrow> moisture_row list \<Rightarrow> oxidation_row list \<Rightarrow> real \<Rightarrow> real \<Rightarrow> real \<Rightarrow> real
     \<Rightarrow> py_error + (npfloat \<times> string)" where
  "predict_shelf_life_combined category moisture_df oxidation_df T W_s A WVTR =
     (let (W_m, C, K) =
            (case find (\<lambda>row. gab_category row = category) moisture_df of
               Some row \<Rightarrow> (gab_W_m row, gab_C row, gab_K row)
             | None \<Rightarrow> (NaN, NaN, NaN));
          (E_a, k_0) =
            (case find (\<lambda>row. ox_category row = category) oxidation_df of
               Some row \<Rightarrow> (ox_e_a row, ox_k_0 row)
             | None \<Rightarrow> (NaN, NaN));
          (aw_c, aw_0) = get_aw_values category
      in case (if \<not> isnan W_m
               then predict_shelf_life_moisture W_m C K W_s A WVTR aw_c aw_0
               else Inr NaN) of
           Inl err \<Rightarrow> Inl err
         | Inr shelf_life_moisture \<Rightarrow>
             (let shelf_life_oxidation =
                    (if \<not> isnan E_a then predict_shelf_life_oxidation E_a k_0 T else NaN)
              in if \<not> isnan shelf_life_moisture \<and> \<not> isnan shelf_life_oxidation
                 then (if fl_le shelf_life_moisture shelf_life_oxidation
                       then Inr (shelf_life_moisture, ''moisture gain'')
                       else Inr (shelf_life_oxidation, ''lipid oxidation''))
                 else if \<not> isnan shelf_life_moisture
                 then Inr (shelf_life_moisture, ''moisture gain'')
                 else if \<not> isnan shelf_life_oxidation
                 then Inr (shelf_life_oxidation, ''lipid oxidation'')
                 else Inr (NaN, ''none'')))"

section \<open>pandas and NumPy helpers\<close>

text \<open>
  \<open>DataFrame.groupby(key)\<close> iterates over the distinct keys in ascending order; each
  of them holds the rows of its key in their original order.
\<close>

definition groupby :: "('r \<Rightarrow> 'k::linorder) \<Rightarrow> 'r list \<Rightarrow> ('k \<times> 'r list) list" where
  "groupby key rows =
     map (\<lambda>k. (k, filter (\<lambda>r. key r = k) rows)) (sort (remdups (map key rows)))"

text \<open>\<open>GroupBy.mean\<close> skips NaN entries; the mean of no entries is NaN.\<close>

definition pd_mean :: "npfloat list \<Rightarrow> npfloat" where
  "pd_mean xs =
     (let ys = filter (\<lambda>v. \<not> isnan v) xs
      in if ys = [] then NaN else fl_div (foldl fl_add (Fin 0) ys) (Fin (real (length ys))))"

text \<open>Ascending sort of an array without NaN, by insertion under \<open>fl_le\<close>.\<close>

fun insort_fl :: "npfloat \<Rightarrow> npfloat list \<Rightarrow> npfloat list" where
  "insort_fl x [] = [x]"
| "insort_fl x (y # ys) = (if fl_le x y then x # y # ys else y # insort_fl x ys)"

definition sort_fl :: "npfloat list \<Rightarrow> npfloat list" where
  "sort_fl xs = foldr insort_fl xs []"

text \<open>
  \<open>np.median\<close>: NaN when the array is empty or holds a NaN; otherwise the middle
  element of the sorted array, or the mean of the two middle elements.
\<close>

definition np_median :: "npfloat list \<Rightarrow> npfloat" where
  "np_median xs =
     (if xs = [] \<or> NaN \<in> set xs then NaN
      else let s = sort_fl xs; n = length s
           in if even n then fl_div (fl_add (s ! (n div 2 - 1)) (s ! (n div 2))) (Fin 2)
              else s ! (n div 2))"

section \<open>oxidation\_fit.py\<close>

definition T_25 :: real where
  "T_25 = 298.15"

definition mad :: "npfloat list \<Rightarrow> npfloat" where
  "mad series =
     (let medium = np_median series
      in np_median (map (\<lambda>v. fl_abs (fl_sub v medium)) series))"

definition robust_z :: "npfloat list \<Rightarrow> npfloat list" where
  "robust_z series =
     (let medium = np_median series;
          m = mad series
      in if fl_eq m (Fin 0) then map (\<lambda>v. Fin 0) series
         else map (\<lambda>v. fl_div (fl_mul (Fin 0.6745) (fl_sub v medium)) m) series)"

text \<open>A row of the oxidation sheet: category, set-point temperature, induction period.\<close>

record oxidation_obs =
  obs_category :: string
  set_point_t :: real
  ip_h :: npfloat

text \<open>
  \<open>remove_outliers\<close>; the source's defaults \<open>z_thresh = 3.5\<close> and \<open>min_n = 6\<close> are
  passed explicitly. \<open>df.loc[mask]\<close> keeps the rows whose mask entry is true, in order.
\<close>

definition remove_outliers :: "oxidation_obs list \<Rightarrow> real \<Rightarrow> int \<Rightarrow> oxidation_obs list" where
  "remove_outliers grp z_thresh min_n =
     (if int (length grp) < min_n then grp
      else let ln_ip = map (\<lambda>r. fl_log (ip_h r)) grp;
               z = robust_z ln_ip;
               mask = map (\<lambda>v. fl_le (fl_abs v) (Fin z_thresh)) z
           in map snd (filter fst (zip mask grp)))"

text \<open>
  \<open>clean_oxidation_data\<close>: the filter applied to every (category, set-point) group. The
  rows of a group keep their relative order, which is all the later per-category
  averaging reads.
\<close>

definition clean_oxidation_data :: "oxidation_obs list \<Rightarrow> real \<Rightarrow> int \<Rightarrow> oxidation_obs list" where
  "clean_oxidation_data oxidation_df z_thresh min_n =
     concat (map (\<lambda>(k, g). remove_outliers g z_thresh min_n)
                 (groupby (\<lambda>r. (obs_category r, set_point_t r)) oxidation_df))"

definition arrhenius_linear_model :: "npfloat \<Rightarrow> npfloat \<Rightarrow> npfloat \<Rightarrow> npfloat" where
  "arrhenius_linear_model x a b = fl_add a (fl_mul b x)"

text \<open>
  The library functions the two fitting scripts call. SciPy's \<open>curve_fit\<close> returns the
  fitted parameters or raises: \<open>curve_fit_linear x y\<close> stands for
  \<open>curve_fit(arrhenius_linear_model, x, y)\<close> and \<open>curve_fit_gab aw moisture p0 maxfev\<close>
  for \<open>curve_fit(gab_model, aw, moisture, p0=p0, maxfev=maxfev)\<close>. Each of the three
  scikit-learn metrics returns a number or raises.
\<close>

record fit_libs =
  curve_fit_gab ::
    "npfloat list \<Rightarrow> npfloat list \<Rightarrow> real \<times> real \<times> real \<Rightarrow> nat
       \<Rightarrow> py_error + (npfloat \<times> npfloat \<times> npfloat)"
  curve_fit_linear :: "npfloat list \<Rightarrow> npfloat list \<Rightarrow> py_error + (npfloat \<times> npfloat)"
  r2_score :: "npfloat list \<Rightarrow> npfloat list \<Rightarrow> py_error + npfloat"
  mean_squared_error :: "npfloat list \<Rightarrow> npfloat list \<Rightarrow> py_error + npfloat"
  mean_absolute_error :: "npfloat list \<Rightarrow> npfloat list \<Rightarrow> py_error + npfloat"

record arrhenius_fit =
  fit_Ea :: npfloat
  fit_k_0 :: npfloat
  fit_IP_25 :: npfloat
  fit_r2 :: npfloat
  fit_rmse :: npfloat
  fit_mae :: npfloat
  fit_rss :: npfloat
  fit_x :: "npfloat list option"
  fit_y :: "npfloat list option"
  fit_y_pred :: "npfloat list option"

definition arrhenius_unavailable :: arrhenius_fit where
  "arrhenius_unavailable =
     \<lparr>fit_Ea = NaN, fit_k_0 = NaN, fit_IP_25 = NaN, fit_r2 = NaN, fit_rmse = NaN,
      fit_mae = NaN, fit_rss = NaN, fit_x = None, fit_y = None, fit_y_pred = None\<rparr>"

text \<open>
  \<open>fit_arrhenius_model\<close>. The three array computations before the \<open>try\<close> are NumPy's
  and do not raise; every exception raised inside the \<open>try\<close> is caught.
\<close>

definition fit_arrhenius_model :: "fit_libs \<Rightarrow> real list \<Rightarrow> npfloat list \<Rightarrow> arrhenius_fit" where
  "fit_arrhenius_model libs temps_C ips =
     (let temps_K = map (\<lambda>t. t + 273.15) temps_C;
          x = map (\<lambda>t. fl_div (Fin 1) (Fin t)) temps_K;
          y = map (\<lambda>ip. fl_log (fl_div (Fin 1) ip)) ips
      in case curve_fit_linear libs x y of
           Inl err \<Rightarrow> arrhenius_unavailable
         | Inr (a, b) \<Rightarrow>
             (let Ea = fl_div (fl_mul (fl_neg b) (Fin R)) (Fin 1000);
                  k_0 = fl_exp a;
                  ln_1_IP_25 = arrhenius_linear_model (Fin (1 / T_25)) a b;
                  IP_25 = fl_exp (fl_neg ln_1_IP_25);
                  y_pred = map (\<lambda>v. arrhenius_linear_model v a b) x
              in case r2_score libs y y_pred of
                   Inl err \<Rightarrow> arrhenius_unavailable
                 | Inr r2 \<Rightarrow>
                     (case mean_squared_error libs y y_pred of
                        Inl err \<Rightarrow> arrhenius_unavailable
                      | Inr mse \<Rightarrow>
                          (case mean_absolute_error libs y y_pred of
                             Inl err \<Rightarrow> arrhenius_unavailable
                           | Inr mae \<Rightarrow>
                               (let rmse = fl_sqrt mse;
                                    rss = foldl fl_add (Fin 0)
                                            (map (\<lambda>(u, v). fl_mul (fl_sub u v) (fl_sub u v))
                                                 (zip y y_pred))
                                in \<lparr>fit_Ea = Ea, fit_k_0 = k_0, fit_IP_25 = IP_25,
                                    fit_r2 = r2, fit_rmse = rmse, fit_mae = mae, fit_rss = rss,
                                    fit_x = Some x, fit_y = Some y,
                                    fit_y_pred = Some y_pred\<rparr>)))))"

text \<open>A row of the Arrhenius parameter table the script writes.\<close>

record arrhenius_row =
  arr_category :: string
  arr_e_a :: npfloat
  arr_k_0 :: npfloat
  arr_ip_days_25c :: npfloat

text \<open>
  \<open>group.groupby('set_point_t')['ip_h'].mean().reset_index()\<close>: one row per distinct
  set-point, in ascending order, with the mean induction period.
\<close>

definition grouped :: "oxidation_obs list \<Rightarrow> (real \<times> npfloat) list" where
  "grouped grp = map (\<lambda>(t, g). (t, pd_mean (map ip_h g))) (groupby set_point_t grp)"

text \<open>
  The body of the per-category loop: the averaged sample, the fit, the conversion of the
  extrapolated induction period to days, and the result row. Console output and plot
  files are effects outside this model.
\<close>

definition fit_category :: "fit_libs \<Rightarrow> string \<Rightarrow> oxidation_obs list \<Rightarrow> arrhenius_row" where
  "fit_category libs category grp =
     (let temps_C = map fst (grouped grp);
          ips = map snd (grouped grp);
          fit = fit_arrhenius_model libs temps_C ips;
          IP_25_days = (if \<not> isnan (fit_IP_25 fit) then fl_div (fit_IP_25 fit) (Fin 24)
                        else NaN)
      in \<lparr>arr_category = category, arr_e_a = fit_Ea fit, arr_k_0 = fit_k_0 fit,
          arr_ip_days_25c = IP_25_days\<rparr>)"

definition fit_oxidation_by_category :: "fit_libs \<Rightarrow> oxidation_obs list \<Rightarrow> arrhenius_row list" where
  "fit_oxidation_by_category libs cleaned =
     map (\<lambda>(category, grp). fit_category libs category grp) (groupby obs_category cleaned)"

section \<open>moisture\_fit.py\<close>




definition init_params :: "real \<times> real \<times> real" where
  "init_params = (0.05, 10.0, 0.8)"

text \<open>\<open>fit_gab_model\<close>: only a \<open>RuntimeError\<close> is caught; any other exception propagates.\<close>

definition fit_gab_model ::
  "fit_libs \<Rightarrow> npfloat list \<Rightarrow> npfloat list \<Rightarrow> py_error + (npfloat \<times> npfloat \<times> npfloat)" where
  "fit_gab_model libs aw moisture =
     (case curve_fit_gab libs aw moisture init_params 10000 of
        Inr params \<Rightarrow> Inr params
      | Inl RuntimeError \<Rightarrow> Inr (NaN, NaN, NaN)
      | Inl err \<Rightarrow> Inl err)"






section \<open>Reference definitions\<close>

text \<open>
  The GAB isotherm as the design document writes it, over the reals:
  \<open>M(a_w) = W_m C K a_w / ((1 - K a_w) (1 - K a_w + C K a_w))\<close>.
\<close>

definition gab_isotherm :: "real \<Rightarrow> real \<Rightarrow> real \<Rightarrow> real \<Rightarrow> real" where
  "gab_isotherm W_m C K aw = W_m * C * K * aw / ((1 - K * aw) * (1 - K * aw + C * K * aw))"

text \<open>
  The two pathway values as \<open>predict_shelf_life_combined\<close> computes them before it
  selects: the table lookup, the NaN test on the leading parameter, and the prediction.
  A pathway's parameters are available when the category has a row whose leading
  parameter is not NaN.
\<close>

definition moisture_available :: "string \<Rightarrow> moisture_row list \<Rightarrow> bool" where
  "moisture_available category moisture_df =
     (case find (\<lambda>row. gab_category row = category) moisture_df of
        Some row \<Rightarrow> \<not> isnan (gab_W_m row)
      | None \<Rightarrow> False)"

definition oxidation_available :: "string \<Rightarrow> oxidation_row list \<Rightarrow> bool" where
  "oxidation_available category oxidation_df =
     (case find (\<lambda>row. ox_category row = category) oxidation_df of
        Some row \<Rightarrow> \<not> isnan (ox_e_a row)
      | None \<Rightarrow> False)"

definition moisture_pathway ::
  "string \<Rightarrow> moisture_row list \<Rightarrow> real \<Rightarrow> real \<Rightarrow> real \<Rightarrow> py_error + npfloat" where
  "moisture_pathway category moisture_df W_s A WVTR =
     (case find (\<lambda>row. gab_category row = category) moisture_df of
        Some row \<Rightarrow>
          if \<not> isnan (gab_W_m row)
          then predict_shelf_life_moisture (gab_W_m row) (gab_C row) (gab_K row) W_s A WVTR
                 (fst (get_aw_values category)) (snd (get_aw_values category))
          else Inr NaN
      | None \<Rightarrow> Inr NaN)"

definition oxidation_pathway :: "string \<Rightarrow> oxidation_row list \<Rightarrow> real \<Rightarrow> npfloat" where
  "oxidation_pathway category oxidation_df T =
     (case find (\<lambda>row. ox_category row = category) oxidation_df of
        Some row \<Rightarrow>
          if \<not> isnan (ox_e_a row)
          then predict_shelf_life_oxidation (ox_e_a row) (ox_k_0 row) T
          else NaN
      | None \<Rightarrow> NaN)"

text \<open>The selection block of \<open>predict_shelf_life_combined\<close> on the two pathway values.\<close>

definition select_binding :: "npfloat \<Rightarrow> npfloat \<Rightarrow> npfloat \<times> string" where
  "select_binding m x =
     (if m \<noteq> NaN \<and> x \<noteq> NaN
      then (if fl_le m x then (m, ''moisture gain'') else (x, ''lipid oxidation''))
      else if m \<noteq> NaN then (m, ''moisture gain'')
      else if x \<noteq> NaN then (x, ''lipid oxidation'')
      else (NaN, ''none''))"




text \<open>
  The robust statistics of the outlier filter over the reals: the median of a sample, the
  median absolute deviation, and the robust z-score \<open>0.6745 (x - median) / MAD\<close>.
\<close>

definition median_of :: "real list \<Rightarrow> real" where
  "median_of xs =
     (let s = sort xs; n = length s
      in if even n then (s ! (n div 2 - 1) + s ! (n div 2)) / 2 else s ! (n div 2))"

definition mad_of :: "real list \<Rightarrow> real" where
  "mad_of xs = median_of (map (\<lambda>x. \<bar>x - median_of xs\<bar>) xs)"

definition robust_z_score :: "real list \<Rightarrow> real \<Rightarrow> real" where
  "robust_z_score xs x = 0.6745 * (x - median_of xs) / mad_of xs"

text \<open>An observation with a positive, finite induction period, and the logarithm of that period.\<close>

definition positive_ip :: "oxidation_obs \<Rightarrow> bool" where
  "positive_ip r = (case ip_h r of Fin v \<Rightarrow> 0 < v | _ \<Rightarrow> False)"

definition fin_val :: "npfloat \<Rightarrow> real" where
  "fin_val v = (case v of Fin x \<Rightarrow> x | _ \<Rightarrow> 0)"

definition ln_ip_of :: "oxidation_obs \<Rightarrow> real" where
  "ln_ip_of r = ln (fin_val (ip_h r))"

text \<open>
  The linearised sample \<open>x = 1 / T_K\<close>, \<open>y = ln (1 / IP)\<close> of the Arrhenius fit; the
  three metrics returning without an exception; an optimizer that raises on a sample
  with fewer points than the line has parameters; and the sentinel row of a category.
\<close>

definition arrhenius_x :: "real list \<Rightarrow> npfloat list" where
  "arrhenius_x temps_C = map (\<lambda>t. fl_div (Fin 1) (Fin (t + 273.15))) temps_C"

definition arrhenius_y :: "npfloat list \<Rightarrow> npfloat list" where
  "arrhenius_y ips = map (\<lambda>ip. fl_log (fl_div (Fin 1) ip)) ips"

definition metrics_return :: "fit_libs \<Rightarrow> npfloat list \<Rightarrow> npfloat list \<Rightarrow> bool" where
  "metrics_return libs y y_pred =
     (\<not> isl (r2_score libs y y_pred) \<and> \<not> isl (mean_squared_error libs y y_pred) \<and>
      \<not> isl (mean_absolute_error libs y y_pred))"

definition rejects_underdetermined :: "fit_libs \<Rightarrow> bool" where
  "rejects_underdetermined libs =
     (\<forall>xs ys. length xs < 2 \<longrightarrow> isl (curve_fit_linear libs xs ys))"

definition unavailable_row :: "string \<Rightarrow> arrhenius_row" where
  "unavailable_row category =
     \<lparr>arr_category = category, arr_e_a = NaN, arr_k_0 = NaN, arr_ip_days_25c = NaN\<rparr>"




definition obs :: "string \<Rightarrow> real \<Rightarrow> real \<Rightarrow> oxidation_obs" where
  "obs c t v = \<lparr>obs_category = c, set_point_t = t, ip_h = Fin v\<rparr>"

definition example_libs :: fit_libs where
  "example_libs =
     \<lparr>curve_fit_gab = (\<lambda>aw moisture p0 maxfev.
          if length aw < 3 then Inl RuntimeError else Inr (Fin 0.05, Fin 10, Fin 0.8)),
      curve_fit_linear = (\<lambda>x y.
          if length x < 2 then Inl TypeError else Inr (Fin 0, Fin 0)),
      r2_score = (\<lambda>y y_pred. Inr (Fin 1)),
      mean_squared_error = (\<lambda>y y_pred. Inr (Fin 0)),
      mean_absolute_error = (\<lambda>y y_pred. Inr (Fin 0))\<rparr>"

section \<open>Properties of the shelf-life combiner\<close>

lemma gab_model_Fin:
  "(1 - K * aw) * (1 - K * aw + C * K * aw) \<noteq> 0 \<Longrightarrow>
   gab_model (Fin aw) (Fin W_m) (Fin C) (Fin K) = Fin (gab_isotherm W_m C K aw)"
  by (simp add: gab_model_def gab_isotherm_def fl_sub_def)

text \<open>
  C8. The water-activity lookup: \<open>a_w_c\<close> is 0.6 for the codes C, D, P, S and 0.5 for
  every other code; \<open>a_w_0\<close> is 0.4 for D and S and 0.3 otherwise. Category D yields
  (0.6, 0.4), category O yields (0.5, 0.3), and a code outside the category enumeration
  yields the fallback (0.5, 0.3).
\<close>

theorem get_aw_values_table:
  "fst (get_aw_values c) =
     (if c = ''C'' \<or> c = ''D'' \<or> c = ''P'' \<or> c = ''S'' then 0.6 else 0.5) \<and>
   snd (get_aw_values c) = (if c = ''D'' \<or> c = ''S'' then 0.4 else 0.3) \<and>
   get_aw_values ''D'' = (0.6, 0.4) \<and>
   get_aw_values ''O'' = (0.5, 0.3) \<and>
   (c \<notin> set (map fst CATEGORY_MAP) \<longrightarrow> get_aw_values c = (0.5, 0.3))"
  by (simp add: get_aw_values_def CATEGORY_MAP_def)

theorem get_aw_values_table_witness:
  "''X'' \<notin> set (map fst CATEGORY_MAP) \<and> get_aw_values ''X'' = (0.5, 0.3)"
  using get_aw_values_table [of "''X''"] by (simp add: CATEGORY_MAP_def)

text \<open>
  C9. For finite GAB parameters and scenario constants with \<open>A * WVTR \<noteq> 0\<close>, at water
  activities where the isotherm's denominator does not vanish, the moisture-pathway
  shelf life is \<open>(W_s / (A * WVTR)) * (M(a_w_c) - M(a_w_0))\<close> with \<open>M\<close> the GAB
  isotherm. \<open>M(0.5)\<close> for \<open>(W_m, C, K) = (0.05, 10, 0.8)\<close> is \<open>0.2 / (0.6 * 4.6)\<close>, and
  \<open>M(0) = 0\<close> for all finite parameters.
\<close>

theorem moisture_shelf_life_formula:
  "(A * WVTR \<noteq> 0 \<and>
    (1 - K * awc) * (1 - K * awc + C * K * awc) \<noteq> 0 \<and>
    (1 - K * awi) * (1 - K * awi + C * K * awi) \<noteq> 0 \<longrightarrow>
    predict_shelf_life_moisture (Fin W_m) (Fin C) (Fin K) W_s A WVTR awc awi =
      Inr (Fin ((W_s / (A * WVTR)) * (gab_isotherm W_m C K awc - gab_isotherm W_m C K awi)))) \<and>
   gab_model (Fin 0.5) (Fin 0.05) (Fin 10) (Fin 0.8) = Fin (0.2 / (0.6 * 4.6)) \<and>
   gab_model (Fin 0) (Fin W_m) (Fin C) (Fin K) = Fin 0"
  by (simp add: predict_shelf_life_moisture_def gab_model_Fin fl_sub_def)
     (simp add: gab_isotherm_def)

theorem moisture_shelf_life_formula_witness:
  "(0.1::real) * 0.5 \<noteq> 0 \<and>
   (1 - 0.8 * 0.6) * (1 - 0.8 * 0.6 + 10 * 0.8 * 0.6) \<noteq> (0::real) \<and>
   (1 - 0.8 * 0.3) * (1 - 0.8 * 0.3 + 10 * 0.8 * 0.3) \<noteq> (0::real) \<and>
   predict_shelf_life_moisture (Fin 0.05) (Fin 10) (Fin 0.8) 200 0.1 0.5 0.6 0.3 =
     Inr (Fin ((200 / (0.1 * 0.5)) *
               (gab_isotherm 0.05 10 0.8 0.6 - gab_isotherm 0.05 10 0.8 0.3)))"
  using moisture_shelf_life_formula
    [where A = "0.1" and WVTR = "0.5" and K = "0.8" and C = 10 and W_m = "0.05"
       and W_s = 200 and awc = "0.6" and awi = "0.3"]
  by simp

lemma combined_unfold:
  "predict_shelf_life_combined c mdf odf T W_s A WVTR =
     (case moisture_pathway c mdf W_s A WVTR of
        Inl err \<Rightarrow> Inl err
      | Inr m \<Rightarrow> Inr (select_binding m (oxidation_pathway c odf T)))"
  by (simp add: predict_shelf_life_combined_def moisture_pathway_def oxidation_pathway_def
      select_binding_def isnan_def Let_def
      split: option.splits prod.splits sum.splits)

lemma unavailable_moisture_NaN:
  "\<not> moisture_available c mdf \<Longrightarrow> moisture_pathway c mdf W_s A WVTR = Inr NaN"
  by (simp add: moisture_available_def moisture_pathway_def split: option.splits)

lemma unavailable_oxidation_NaN:
  "\<not> oxidation_available c odf \<Longrightarrow> oxidation_pathway c odf T = NaN"
  by (simp add: oxidation_available_def oxidation_pathway_def split: option.splits)

text \<open>
  C1 (amended). Let \<open>m\<close> and \<open>x\<close> be the moisture and oxidation pathway values. If both
  are finite the result is their minimum, labelled moisture gain when \<open>m \<le> x\<close> (ties
  included) and lipid oxidation otherwise. If exactly one of them is not NaN, that value
  and its label are returned without comparison. If both are NaN the result is NaN with
  mechanism none. A pathway whose parameters are unavailable has the value NaN; a
  pathway whose parameters are available can still evaluate to NaN, and is then treated
  as unavailable.
\<close>

theorem combined_selection_rule:
  assumes "moisture_pathway c mdf W_s A WVTR = Inr m"
    and "oxidation_pathway c odf T = x"
  shows "(\<forall>a b. m = Fin a \<and> x = Fin b \<longrightarrow>
            predict_shelf_life_combined c mdf odf T W_s A WVTR =
              Inr (Fin (min a b), if a \<le> b then ''moisture gain'' else ''lipid oxidation'')) \<and>
         (m \<noteq> NaN \<and> x = NaN \<longrightarrow>
            predict_shelf_life_combined c mdf odf T W_s A WVTR = Inr (m, ''moisture gain'')) \<and>
         (m = NaN \<and> x \<noteq> NaN \<longrightarrow>
            predict_shelf_life_combined c mdf odf T W_s A WVTR = Inr (x, ''lipid oxidation'')) \<and>
         (m = NaN \<and> x = NaN \<longrightarrow>
            predict_shelf_life_combined c mdf odf T W_s A WVTR = Inr (NaN, ''none'')) \<and>
         (\<not> moisture_available c mdf \<longrightarrow> m = NaN) \<and>
         (\<not> oxidation_available c odf \<longrightarrow> x = NaN)"
proof -
  have sel: "predict_shelf_life_combined c mdf odf T W_s A WVTR = Inr (select_binding m x)"
    using assms by (simp add: combined_unfold)
  have av_m: "\<not> moisture_available c mdf \<longrightarrow> m = NaN"
    using assms(1) unavailable_moisture_NaN [of c mdf W_s A WVTR] by auto
  have av_x: "\<not> oxidation_available c odf \<longrightarrow> x = NaN"
    using assms(2) unavailable_oxidation_NaN [of c odf T] by auto
  show ?thesis
    using av_m av_x by (auto simp: sel select_binding_def min_def)
qed

theorem combined_single_pathway_counterexample:
  "moisture_available ''F'' [\<lparr>gab_category = ''F'', gab_W_m = Fin 0, gab_C = Fin 1, gab_K = Fin 2\<rparr>] \<and>
   \<not> oxidation_available ''F'' [] \<and>
   predict_shelf_life_combined ''F''
     [\<lparr>gab_category = ''F'', gab_W_m = Fin 0, gab_C = Fin 1, gab_K = Fin 2\<rparr>] [] 25 200 0.1 0.5 =
     Inr (NaN, ''none'')"
  by (simp add: moisture_available_def oxidation_available_def predict_shelf_life_combined_def
      predict_shelf_life_moisture_def gab_model_def fl_sub_def get_aw_values_def isnan_def
      scale_inf_def)

theorem combined_selection_rule_witness:
  "moisture_pathway ''C'' [\<lparr>gab_category = ''C'', gab_W_m = Fin 1, gab_C = Fin 1, gab_K = Fin (1/2)\<rparr>]
      200 0.1 0.5 = Inr (Fin (120000 / 119)) \<and>
   oxidation_pathway ''C'' [\<lparr>ox_category = ''C'', ox_e_a = Fin 0, ox_k_0 = Fin (1/48000)\<rparr>] 25
      = Fin 2000 \<and>
   predict_shelf_life_combined ''C''
      [\<lparr>gab_category = ''C'', gab_W_m = Fin 1, gab_C = Fin 1, gab_K = Fin (1/2)\<rparr>]
      [\<lparr>ox_category = ''C'', ox_e_a = Fin 0, ox_k_0 = Fin (1/48000)\<rparr>] 25 200 0.1 0.5 =
      Inr (Fin (120000 / 119), ''moisture gain'')"
proof -
  have m: "moisture_pathway ''C''
      [\<lparr>gab_category = ''C'', gab_W_m = Fin 1, gab_C = Fin 1, gab_K = Fin (1/2)\<rparr>]
      200 0.1 0.5 = Inr (Fin (120000 / 119))"
    by (simp add: moisture_pathway_def predict_shelf_life_moisture_def gab_model_def fl_sub_def
        get_aw_values_def isnan_def)
  have x: "oxidation_pathway ''C''
      [\<lparr>ox_category = ''C'', ox_e_a = Fin 0, ox_k_0 = Fin (1/48000)\<rparr>] 25 = Fin 2000"
    by (simp add: oxidation_pathway_def predict_shelf_life_oxidation_def isnan_def R_def)
  show ?thesis
    using combined_selection_rule [OF m x] m x by simp
qed




















section \<open>Properties of the outlier filter\<close>

lemma insort_fl_Fin: "insort_fl (Fin x) (map Fin ys) = map Fin (insort x ys)"
  by (induction ys) auto

lemma sort_fl_Fin: "sort_fl (map Fin xs) = map Fin (sort xs)"
  by (induction xs) (simp_all add: sort_fl_def insort_fl_Fin [symmetric])

lemma np_median_Fin:
  assumes "xs \<noteq> []"
  shows "np_median (map Fin xs) = Fin (median_of xs)"
proof -
  have n: "0 < length xs" using assms by simp
  have nan: "NaN \<notin> set (map Fin xs)" by auto
  have i1: "length xs div 2 < length (sort xs)" using n by simp
  have i0: "length xs div 2 - 1 < length (sort xs)" using n by (simp add: less_imp_diff_less)
  show ?thesis
    using assms nan i0 i1
    by (simp add: np_median_def median_of_def sort_fl_Fin Let_def del: set_map)
qed

lemma mad_Fin:
  assumes "xs \<noteq> []"
  shows "mad (map Fin xs) = Fin (mad_of xs)"
proof -
  have dev: "map (\<lambda>v. fl_abs (fl_sub v (Fin (median_of xs)))) (map Fin xs) =
        map Fin (map (\<lambda>x. \<bar>x - median_of xs\<bar>) xs)"
    by (simp add: fl_sub_def)
  have "mad (map Fin xs) =
          np_median (map (\<lambda>v. fl_abs (fl_sub v (Fin (median_of xs)))) (map Fin xs))"
    unfolding mad_def Let_def np_median_Fin [OF assms] ..
  also have "\<dots> = np_median (map Fin (map (\<lambda>x. \<bar>x - median_of xs\<bar>) xs))"
    by (simp only: dev)
  also have "\<dots> = Fin (median_of (map (\<lambda>x. \<bar>x - median_of xs\<bar>) xs))"
    using assms by (intro np_median_Fin) simp
  finally show ?thesis by (simp add: mad_of_def)
qed

lemma robust_z_Fin:
  assumes "xs \<noteq> []"
  shows "robust_z (map Fin xs) =
           (if mad_of xs = 0 then map (\<lambda>x. Fin 0) xs
            else map (\<lambda>x. Fin (robust_z_score xs x)) xs)"
  using assms
  by (simp add: robust_z_def mad_Fin np_median_Fin fl_eq_def Let_def fl_sub_def
      robust_z_score_def)

lemma ln_ip_Fin:
  assumes "list_all positive_ip g"
  shows "map (\<lambda>r. fl_log (ip_h r)) g = map Fin (map ln_ip_of g)"
  using assms
  by (induction g) (auto simp: positive_ip_def ln_ip_of_def fin_val_def split: npfloat.splits)

lemma mask_filter: "map snd (filter fst (zip (map P xs) xs)) = filter P xs"
  by (induction xs) auto

lemma remove_outliers_positive:
  assumes "list_all positive_ip g" and "min_n \<le> int (length g)"
  shows "remove_outliers g z_thresh min_n =
           (if mad_of (map ln_ip_of g) = 0
            then filter (\<lambda>r. 0 \<le> z_thresh) g
            else filter (\<lambda>r. \<bar>robust_z_score (map ln_ip_of g) (ln_ip_of r)\<bar> \<le> z_thresh) g)"
proof (cases "g = []")
  case True
  then show ?thesis by (simp add: remove_outliers_def Let_def robust_z_def)
next
  case False
  then have ne: "map ln_ip_of g \<noteq> []" by simp
  have z: "robust_z (map (\<lambda>r. fl_log (ip_h r)) g) =
             (if mad_of (map ln_ip_of g) = 0 then map (\<lambda>r. Fin 0) g
              else map (\<lambda>r. Fin (robust_z_score (map ln_ip_of g) (ln_ip_of r))) g)"
    unfolding ln_ip_Fin [OF assms(1)] robust_z_Fin [OF ne] by (simp add: comp_def)
  have "remove_outliers g z_thresh min_n =
          map snd (filter fst (zip (map (\<lambda>v. fl_le (fl_abs v) (Fin z_thresh))
                                      (robust_z (map (\<lambda>r. fl_log (ip_h r)) g))) g))"
    using assms(2) by (simp add: remove_outliers_def Let_def)
  then show ?thesis
    by (simp add: z mask_filter comp_def)
qed

text \<open>
  C2. A group with fewer observations than \<open>min_n\<close> is returned unmodified. For a group
  of positive induction periods with at least \<open>min_n\<close> observations: if the MAD of the
  log values is not zero, exactly the observations whose robust z-score exceeds the
  threshold in absolute value are discarded; if the MAD is zero, and the threshold is
  not negative, no observation is discarded.
\<close>

theorem remove_outliers_robust_z:
  "(int (length g) < min_n \<longrightarrow> remove_outliers g z_thresh min_n = g) \<and>
   (list_all positive_ip g \<and> min_n \<le> int (length g) \<and> mad_of (map ln_ip_of g) \<noteq> 0 \<longrightarrow>
      remove_outliers g z_thresh min_n =
        filter (\<lambda>r. \<not> z_thresh < \<bar>robust_z_score (map ln_ip_of g) (ln_ip_of r)\<bar>) g) \<and>
   (list_all positive_ip g \<and> min_n \<le> int (length g) \<and> mad_of (map ln_ip_of g) = 0 \<and>
    0 \<le> z_thresh \<longrightarrow>
      remove_outliers g z_thresh min_n = g)"
  by (simp add: remove_outliers_positive not_less) (simp add: remove_outliers_def)

theorem remove_outliers_robust_z_witness:
  "remove_outliers [obs ''C'' 60 (exp 1), obs ''C'' 60 (exp 2), obs ''C'' 60 (exp 3), obs ''C'' 60 (exp 4), obs ''C'' 60 (exp 100)] 3.5 6 =
     [obs ''C'' 60 (exp 1), obs ''C'' 60 (exp 2), obs ''C'' 60 (exp 3), obs ''C'' 60 (exp 4), obs ''C'' 60 (exp 100)] \<and>
   list_all positive_ip
     [obs ''C'' 60 (exp 1), obs ''C'' 60 (exp 2), obs ''C'' 60 (exp 3), obs ''C'' 60 (exp 4), obs ''C'' 60 (exp 5), obs ''C'' 60 (exp 100)] \<and>
   mad_of (map ln_ip_of
     [obs ''C'' 60 (exp 1), obs ''C'' 60 (exp 2), obs ''C'' 60 (exp 3), obs ''C'' 60 (exp 4), obs ''C'' 60 (exp 5), obs ''C'' 60 (exp 100)]) = 3 / 2 \<and>
   remove_outliers
     [obs ''C'' 60 (exp 1), obs ''C'' 60 (exp 2), obs ''C'' 60 (exp 3), obs ''C'' 60 (exp 4), obs ''C'' 60 (exp 5), obs ''C'' 60 (exp 100)] 3.5 6 =
     [obs ''C'' 60 (exp 1), obs ''C'' 60 (exp 2), obs ''C'' 60 (exp 3), obs ''C'' 60 (exp 4), obs ''C'' 60 (exp 5)] \<and>
   mad_of (map ln_ip_of [obs ''C'' 60 1, obs ''C'' 60 1, obs ''C'' 60 1, obs ''C'' 60 1, obs ''C'' 60 1, obs ''C'' 60 1]) = 0 \<and>
   remove_outliers [obs ''C'' 60 1, obs ''C'' 60 1, obs ''C'' 60 1, obs ''C'' 60 1, obs ''C'' 60 1, obs ''C'' 60 1] 3.5 6 =
     [obs ''C'' 60 1, obs ''C'' 60 1, obs ''C'' 60 1, obs ''C'' 60 1, obs ''C'' 60 1, obs ''C'' 60 1]"
proof -
  have ln: "ln_ip_of (obs c t (exp v)) = v" "ln_ip_of (obs c t 1) = 0" for c t v
    by (simp_all add: ln_ip_of_def obs_def fin_val_def)
  have pos: "positive_ip (obs c t (exp v))" "positive_ip (obs c t 1)" for c t v
    by (simp_all add: positive_ip_def obs_def)
  have m1: "mad_of [1, 2, 3, 4, 5, 100] = 3 / 2"
    by (simp add: median_of_def mad_of_def)
  have m0: "mad_of [0, 0, 0, 0, 0, 0] = 0"
    by (simp add: median_of_def mad_of_def)
  have md: "median_of [1, 2, 3, 4, 5, 100] = 7 / 2"
    by (simp add: median_of_def)
  show ?thesis
    using remove_outliers_robust_z
        [of "[obs ''C'' 60 (exp 1), obs ''C'' 60 (exp 2), obs ''C'' 60 (exp 3), obs ''C'' 60 (exp 4), obs ''C'' 60 (exp 100)]" 6 "3.5"]
      remove_outliers_robust_z
        [of "[obs ''C'' 60 (exp 1), obs ''C'' 60 (exp 2), obs ''C'' 60 (exp 3), obs ''C'' 60 (exp 4), obs ''C'' 60 (exp 5), obs ''C'' 60 (exp 100)]"
            6 "3.5"]
      remove_outliers_robust_z [of "[obs ''C'' 60 1, obs ''C'' 60 1, obs ''C'' 60 1, obs ''C'' 60 1, obs ''C'' 60 1, obs ''C'' 60 1]" 6 "3.5"]
    by (simp add: ln pos m1 m0 md robust_z_score_def)
qed

section \<open>Properties of the Arrhenius fitter\<close>

lemma fit_arrhenius_unfold:
  "fit_arrhenius_model libs temps_C ips =
     (case curve_fit_linear libs (arrhenius_x temps_C) (arrhenius_y ips) of
        Inl err \<Rightarrow> arrhenius_unavailable
      | Inr (a, b) \<Rightarrow>
          if metrics_return libs (arrhenius_y ips)
               (map (\<lambda>v. arrhenius_linear_model v a b) (arrhenius_x temps_C))
          then \<lparr>fit_Ea = fl_div (fl_mul (fl_neg b) (Fin R)) (Fin 1000),
                fit_k_0 = fl_exp a,
                fit_IP_25 = fl_exp (fl_neg (arrhenius_linear_model (Fin (1 / T_25)) a b)),
                fit_r2 = projr (r2_score libs (arrhenius_y ips)
                           (map (\<lambda>v. arrhenius_linear_model v a b) (arrhenius_x temps_C))),
                fit_rmse = fl_sqrt (projr (mean_squared_error libs (arrhenius_y ips)
                           (map (\<lambda>v. arrhenius_linear_model v a b) (arrhenius_x temps_C)))),
                fit_mae = projr (mean_absolute_error libs (arrhenius_y ips)
                           (map (\<lambda>v. arrhenius_linear_model v a b) (arrhenius_x temps_C))),
                fit_rss = foldl fl_add (Fin 0)
                            (map (\<lambda>(u, v). fl_mul (fl_sub u v) (fl_sub u v))
                               (zip (arrhenius_y ips)
                                  (map (\<lambda>v. arrhenius_linear_model v a b)
                                     (arrhenius_x temps_C)))),
                fit_x = Some (arrhenius_x temps_C), fit_y = Some (arrhenius_y ips),
                fit_y_pred = Some (map (\<lambda>v. arrhenius_linear_model v a b)
                                     (arrhenius_x temps_C))\<rparr>
          else arrhenius_unavailable)"
  by (simp add: fit_arrhenius_model_def arrhenius_x_def arrhenius_y_def metrics_return_def
      Let_def comp_def split: sum.splits prod.splits)

lemma fit_category_unavailable:
  "fit_arrhenius_model libs (map fst (grouped grp)) (map snd (grouped grp)) =
     arrhenius_unavailable \<Longrightarrow>
   fit_category libs c grp = unavailable_row c"
  by (simp add: fit_category_def unavailable_row_def arrhenius_unavailable_def isnan_def Let_def)

lemma length_grouped: "length (grouped grp) = length (remdups (map set_point_t grp))"
  by (simp add: grouped_def groupby_def)

lemma find_key: "find (\<lambda>k. k = c) ks = (if c \<in> set ks then Some c else None)"
  by (induction ks) auto

lemma find_map_key:
  assumes "\<And>k. key (f k) = k"
  shows "find (\<lambda>row. key row = c) (map f ks) = (if c \<in> set ks then Some (f c) else None)"
  using assms by (induction ks) auto

lemma fit_oxidation_by_category_row:
  "find (\<lambda>row. arr_category row = c) (fit_oxidation_by_category libs cleaned) =
     (if c \<in> set (map obs_category cleaned)
      then Some (fit_category libs c (filter (\<lambda>r. obs_category r = c) cleaned))
      else None)"
proof -
  have eq: "fit_oxidation_by_category libs cleaned =
          map (\<lambda>k. fit_category libs k (filter (\<lambda>r. obs_category r = k) cleaned))
              (sort (remdups (map obs_category cleaned)))"
    by (simp add: fit_oxidation_by_category_def groupby_def comp_def)
  have key: "arr_category (fit_category libs k g) = k" for k g
    by (simp add: fit_category_def Let_def)
  show ?thesis
    unfolding eq
    using find_map_key [of arr_category
        "\<lambda>k. fit_category libs k (filter (\<lambda>r. obs_category r = k) cleaned)" c
        "sort (remdups (map obs_category cleaned))"] key
    by simp
qed

lemma fit_oxidation_categories:
  "map arr_category (fit_oxidation_by_category libs cleaned) =
     sort (remdups (map obs_category cleaned))"
  by (simp add: fit_oxidation_by_category_def groupby_def comp_def fit_category_def Let_def)

text \<open>
  C6. If the optimizer raises any exception, \<open>fit_arrhenius_model\<close> returns the
  sentinel, and the category's row is the sentinel row. With an optimizer that raises on
  fewer points than parameters, a category with fewer than two distinct set-points gets
  the sentinel row. Every category of the cleaned data gets a row, and the row of a
  category is computed from that category's observations alone.
\<close>

theorem arrhenius_failure_isolated:
  "(curve_fit_linear libs (arrhenius_x temps_C) (arrhenius_y ips) = Inl err \<longrightarrow>
      fit_arrhenius_model libs temps_C ips = arrhenius_unavailable) \<and>
   (rejects_underdetermined libs \<and> length (remdups (map set_point_t grp)) < 2 \<longrightarrow>
      fit_category libs c grp = unavailable_row c) \<and>
   (curve_fit_linear libs (arrhenius_x (map fst (grouped grp)))
        (arrhenius_y (map snd (grouped grp))) = Inl err \<longrightarrow>
      fit_category libs c grp = unavailable_row c) \<and>
   (c \<in> set (map obs_category cleaned) \<longrightarrow>
      find (\<lambda>row. arr_category row = c) (fit_oxidation_by_category libs cleaned) =
        Some (fit_category libs c (filter (\<lambda>r. obs_category r = c) cleaned))) \<and>
   map arr_category (fit_oxidation_by_category libs cleaned) =
     sort (remdups (map obs_category cleaned))"
proof -
  have raise: "fit_arrhenius_model libs ts vs = arrhenius_unavailable"
    if "curve_fit_linear libs (arrhenius_x ts) (arrhenius_y vs) = Inl e" for ts vs e
    using that by (simp add: fit_arrhenius_unfold)
  have few: "fit_category libs c grp = unavailable_row c"
    if r: "rejects_underdetermined libs" and n: "length (remdups (map set_point_t grp)) < 2"
  proof -
    have "length (arrhenius_x (map fst (grouped grp))) < 2"
      using n by (simp add: arrhenius_x_def length_grouped)
    then have "isl (curve_fit_linear libs (arrhenius_x (map fst (grouped grp)))
                      (arrhenius_y (map snd (grouped grp))))"
      using r by (simp add: rejects_underdetermined_def)
    then obtain e where "curve_fit_linear libs (arrhenius_x (map fst (grouped grp)))
                      (arrhenius_y (map snd (grouped grp))) = Inl e"
      by (auto simp: isl_def)
    then show ?thesis
      by (intro fit_category_unavailable raise)
  qed
  have fail: "fit_category libs c grp = unavailable_row c"
    if "curve_fit_linear libs (arrhenius_x (map fst (grouped grp)))
          (arrhenius_y (map snd (grouped grp))) = Inl err"
    using that by (intro fit_category_unavailable raise)
  show ?thesis
    using raise few fail fit_oxidation_by_category_row [of c libs cleaned]
      fit_oxidation_categories [of libs cleaned]
    by auto
qed

theorem arrhenius_failure_isolated_witness:
  "curve_fit_linear example_libs (arrhenius_x [60]) (arrhenius_y [Fin 1]) = Inl TypeError \<and>
   fit_arrhenius_model example_libs [60] [Fin 1] = arrhenius_unavailable \<and>
   rejects_underdetermined example_libs \<and>
   length (remdups (map set_point_t [obs ''C'' 60 1, obs ''C'' 60 1])) < 2 \<and>
   fit_category example_libs ''C'' [obs ''C'' 60 1, obs ''C'' 60 1] = unavailable_row ''C'' \<and>
   ''D'' \<in> set (map obs_category
             [obs ''D'' 60 1, obs ''C'' 60 1, obs ''D'' 40 1, obs ''C'' 60 1]) \<and>
   find (\<lambda>row. arr_category row = ''D'')
     (fit_oxidation_by_category example_libs
        [obs ''D'' 60 1, obs ''C'' 60 1, obs ''D'' 40 1, obs ''C'' 60 1]) =
     Some (fit_category example_libs ''D'' [obs ''D'' 60 1, obs ''D'' 40 1]) \<and>
   map arr_category (fit_oxidation_by_category example_libs
        [obs ''D'' 60 1, obs ''C'' 60 1, obs ''D'' 40 1, obs ''C'' 60 1]) = [''C'', ''D'']"
proof -
  have r: "rejects_underdetermined example_libs"
    by (simp add: rejects_underdetermined_def example_libs_def)
  have cf: "curve_fit_linear example_libs (arrhenius_x [60]) (arrhenius_y [Fin 1]) =
              Inl TypeError"
    by (simp add: example_libs_def arrhenius_x_def)
  show ?thesis
    using r cf
      arrhenius_failure_isolated [of example_libs "[60]" "[Fin 1]" TypeError
        "[obs ''C'' 60 1, obs ''C'' 60 1]" "''C''" "[]"]
      arrhenius_failure_isolated [of example_libs "[60]" "[Fin 1]" TypeError
        "[]" "''D''" "[obs ''D'' 60 1, obs ''C'' 60 1, obs ''D'' 40 1, obs ''C'' 60 1]"]
    by (simp add: obs_def)
qed

text \<open>
  C7. When the optimizer returns the line \<open>ln (1 / IP) = a + b (1 / T_K)\<close> and the
  metrics return, the fit reports \<open>E_a = - b R / 1000\<close> with \<open>R = 8.314\<close>,
  \<open>k_0 = exp a\<close> and the induction period \<open>exp (- (a + b / 298.15))\<close> hours at
  298.15 K, which the category's row holds in days, divided by 24.
\<close>

theorem arrhenius_parameters:
  assumes "curve_fit_linear libs (arrhenius_x temps_C) (arrhenius_y ips) = Inr (Fin a, Fin b)"
    and "metrics_return libs (arrhenius_y ips)
           (map (\<lambda>v. arrhenius_linear_model v (Fin a) (Fin b)) (arrhenius_x temps_C))"
  shows "fit_Ea (fit_arrhenius_model libs temps_C ips) = Fin (- b * 8.314 / 1000) \<and>
         fit_k_0 (fit_arrhenius_model libs temps_C ips) = Fin (exp a) \<and>
         fit_IP_25 (fit_arrhenius_model libs temps_C ips) = Fin (exp (- (a + b / 298.15))) \<and>
         (temps_C = map fst (grouped grp) \<and> ips = map snd (grouped grp) \<longrightarrow>
            fit_category libs c grp =
              \<lparr>arr_category = c, arr_e_a = Fin (- b * 8.314 / 1000), arr_k_0 = Fin (exp a),
               arr_ip_days_25c = Fin (exp (- (a + b / 298.15)) / 24)\<rparr>)"
proof -
  have fit: "fit_Ea (fit_arrhenius_model libs temps_C ips) = Fin (- b * 8.314 / 1000) \<and>
         fit_k_0 (fit_arrhenius_model libs temps_C ips) = Fin (exp a) \<and>
         fit_IP_25 (fit_arrhenius_model libs temps_C ips) = Fin (exp (- (a + b / 298.15)))"
    using assms
    by (simp add: fit_arrhenius_unfold arrhenius_linear_model_def R_def T_25_def)
  then show ?thesis
    by (auto simp: fit_category_def Let_def isnan_def)
qed

theorem arrhenius_parameters_witness:
  "curve_fit_linear example_libs (arrhenius_x [40, 60]) (arrhenius_y [Fin 1, Fin 1]) =
     Inr (Fin 0, Fin 0) \<and>
   metrics_return example_libs (arrhenius_y [Fin 1, Fin 1])
     (map (\<lambda>v. arrhenius_linear_model v (Fin 0) (Fin 0)) (arrhenius_x [40, 60])) \<and>
   [40, 60] = map fst (grouped [obs ''D'' 60 1, obs ''D'' 40 1]) \<and>
   [Fin 1, Fin 1] = map snd (grouped [obs ''D'' 60 1, obs ''D'' 40 1]) \<and>
   fit_Ea (fit_arrhenius_model example_libs [40, 60] [Fin 1, Fin 1]) = Fin 0 \<and>
   fit_k_0 (fit_arrhenius_model example_libs [40, 60] [Fin 1, Fin 1]) = Fin 1 \<and>
   fit_IP_25 (fit_arrhenius_model example_libs [40, 60] [Fin 1, Fin 1]) = Fin 1 \<and>
   fit_category example_libs ''D'' [obs ''D'' 60 1, obs ''D'' 40 1] =
     \<lparr>arr_category = ''D'', arr_e_a = Fin 0, arr_k_0 = Fin 1, arr_ip_days_25c = Fin (1 / 24)\<rparr>"
proof -
  have cf: "curve_fit_linear example_libs (arrhenius_x [40, 60]) (arrhenius_y [Fin 1, Fin 1]) =
     Inr (Fin 0, Fin 0)"
    by (simp add: example_libs_def arrhenius_x_def)
  have mr: "metrics_return example_libs (arrhenius_y [Fin 1, Fin 1])
     (map (\<lambda>v. arrhenius_linear_model v (Fin 0) (Fin 0)) (arrhenius_x [40, 60]))"
    by (simp add: metrics_return_def example_libs_def)
  have g: "grouped [obs ''D'' 60 1, obs ''D'' 40 1] = [(40, Fin 1), (60, Fin 1)]"
    by (simp add: grouped_def groupby_def obs_def pd_mean_def isnan_def)
  show ?thesis
    using arrhenius_parameters [OF cf mr, of "[obs ''D'' 60 1, obs ''D'' 40 1]" "''D''"] cf mr g
    by simp
qed

section \<open>Properties of the GAB fitter\<close>



lemma fit_gab_model_propagates:
  "curve_fit_gab libs aw moisture init_params 10000 = Inl err \<Longrightarrow> err \<noteq> RuntimeError \<Longrightarrow>
   fit_gab_model libs aw moisture = Inl err"
  by (simp add: fit_gab_model_def split: py_error.splits)



end
